theory Spec2Isabelle
  imports Main
begin

section \<open>Strings\<close>

text \<open>
  A JavaScript string is modelled as a \<^typ>\<open>string\<close>, one character per code unit. ASCII
  text is represented exactly, and \<^const>\<open>length\<close> agrees with \<^verbatim>\<open>.length\<close> on it. The
  Korean literals of the source cannot be written in this file; each is a named constant
  holding the UTF-8 bytes of the literal (only their being non-empty is ever observed).
\<close>

section \<open>Prompt validation (claude.ts: FORBIDDEN_PATTERNS, validatePrompt)\<close>

text \<open>
  \<^verbatim>\<open>const MAX_PROMPT_LENGTH = 10000;\<close>
  \<^verbatim>\<open>const FORBIDDEN_PATTERNS = /--dangerously|--system-prompt|--unsafe|--allowedTools|--disallowedTools/gi;\<close>

  The regular expression is an alternation of five literal words. Flag \<^verbatim>\<open>i\<close> makes the
  comparison case-insensitive: without flag \<^verbatim>\<open>u\<close> a character of the input matches an
  ASCII letter of the pattern exactly when it is that letter in upper or lower case (the
  canonicalisation step never maps a non-ASCII code unit to an ASCII one). Flag \<^verbatim>\<open>g\<close>
  makes the object stateful: \<^verbatim>\<open>test\<close> starts its search at the object's
  \<^verbatim>\<open>lastIndex\<close> and stores a new \<^verbatim>\<open>lastIndex\<close> afterwards. The object is a module
  constant, so its \<^verbatim>\<open>lastIndex\<close> lives across calls of \<^verbatim>\<open>validatePrompt\<close>; the model
  passes it in and returns it.
\<close>

definition MAX_PROMPT_LENGTH :: nat where
  "MAX_PROMPT_LENGTH = 10000"

definition FORBIDDEN_PATTERNS :: "string list" where
  "FORBIDDEN_PATTERNS =
     [''--dangerously'', ''--system-prompt'', ''--unsafe'', ''--allowedTools'', ''--disallowedTools'']"

definition ascii_lower :: "char \<Rightarrow> char" where
  "ascii_lower c =
     (case map_of (zip ''ABCDEFGHIJKLMNOPQRSTUVWXYZ'' ''abcdefghijklmnopqrstuvwxyz'') c of
        Some l \<Rightarrow> l
      | None \<Rightarrow> c)"

text \<open>Does the literal word \<open>p\<close> match at the start of \<open>s\<close>, ignoring ASCII case?\<close>

fun word_at :: "string \<Rightarrow> string \<Rightarrow> bool" where
  "word_at [] s = True"
| "word_at (p # ps) [] = False"
| "word_at (p # ps) (c # cs) = (ascii_lower p = ascii_lower c \<and> word_at ps cs)"

text \<open>
  The alternation at one position: the alternatives are tried in the order written, and the
  first that matches gives the length of the match.
\<close>

fun alternation_at :: "string list \<Rightarrow> string \<Rightarrow> nat option" where
  "alternation_at [] s = None"
| "alternation_at (p # ps) s = (if word_at p s then Some (length p) else alternation_at ps s)"

text \<open>
  The search loop of \<^verbatim>\<open>RegExp.prototype.exec\<close>: try the position \<open>i\<close>, whose remaining
  input is \<open>s\<close>, then \<open>i + 1\<close>, and so on up to the end of the input. The result is the end
  index of the leftmost match.
\<close>

fun search_from :: "string list \<Rightarrow> string \<Rightarrow> nat \<Rightarrow> nat option" where
  "search_from ps [] i = (case alternation_at ps [] of Some n \<Rightarrow> Some (i + n) | None \<Rightarrow> None)"
| "search_from ps (c # cs) i =
     (case alternation_at ps (c # cs) of
        Some n \<Rightarrow> Some (i + n)
      | None \<Rightarrow> search_from ps cs (Suc i))"

text \<open>
  \<^verbatim>\<open>FORBIDDEN_PATTERNS.test(prompt)\<close> for a global expression whose \<^verbatim>\<open>lastIndex\<close> is
  \<open>lastIndex\<close>: the answer and the new \<^verbatim>\<open>lastIndex\<close>. A \<^verbatim>\<open>lastIndex\<close> beyond the input
  fails at once; every failure resets \<^verbatim>\<open>lastIndex\<close> to 0; a success stores the end of
  the match.
\<close>

definition regex_test :: "string list \<Rightarrow> nat \<Rightarrow> string \<Rightarrow> bool \<times> nat" where
  "regex_test ps lastIndex s =
     (if length s < lastIndex then (False, 0)
      else case search_from ps (drop lastIndex s) lastIndex of
             Some e \<Rightarrow> (True, e)
           | None \<Rightarrow> (False, 0))"

text \<open>
  The two reasons \<^verbatim>\<open>validatePrompt\<close> can return. Each stands for a non-empty Korean
  message: \<open>ForbiddenPattern\<close> for the literal saying that the prompt contains a forbidden
  pattern, \<open>PromptTooLong\<close> for the template saying that the prompt is too long (at most
  \<^verbatim>\<open>MAX_PROMPT_LENGTH\<close> characters). \<open>None\<close> is \<^verbatim>\<open>null\<close>.
\<close>

datatype validation_reason = ForbiddenPattern | PromptTooLong

text \<open>
  \<^verbatim>\<open>validatePrompt(prompt)\<close>, with the \<^verbatim>\<open>lastIndex\<close> of the module's expression before
  the call as first argument; the result is the returned value and the \<^verbatim>\<open>lastIndex\<close>
  after the call.
\<close>

definition validatePrompt :: "nat \<Rightarrow> string \<Rightarrow> validation_reason option \<times> nat" where
  "validatePrompt lastIndex prompt =
     (let (found, lastIndex') = regex_test FORBIDDEN_PATTERNS lastIndex prompt in
      if found then (Some ForbiddenPattern, lastIndex')
      else if MAX_PROMPT_LENGTH < length prompt then (Some PromptTooLong, lastIndex')
      else (None, lastIndex'))"

text \<open>
  The calls of \<^verbatim>\<open>validatePrompt\<close> that one process makes, in order, starting from the
  fresh expression (\<^verbatim>\<open>lastIndex = 0\<close>): the list of the values returned.
\<close>

fun validate_all :: "nat \<Rightarrow> string list \<Rightarrow> validation_reason option list" where
  "validate_all lastIndex [] = []"
| "validate_all lastIndex (p # ps) =
     (let (r, lastIndex') = validatePrompt lastIndex p in r # validate_all lastIndex' ps)"

text \<open>A prompt contains a forbidden pattern when the alternation matches at some position.\<close>

definition contains_forbidden :: "string \<Rightarrow> bool" where
  "contains_forbidden s = (search_from FORBIDDEN_PATTERNS s 0 \<noteq> None)"

section \<open>Values read from the process's output (claude.ts: JSON.parse)\<close>

text \<open>
  What \<^verbatim>\<open>JSON.parse\<close> returns. A number is an integer here: the parser only tests numbers
  for being zero, compares them and carries them through. An object is the list of its
  members in the order written.
\<close>

datatype json =
    JNull
  | JBool bool
  | JNum int
  | JStr string
  | JArr "json list"
  | JObj "(string \<times> json) list"

text \<open>A JavaScript value that may be \<^verbatim>\<open>undefined\<close>: \<open>None\<close> is \<^verbatim>\<open>undefined\<close>.\<close>

type_synonym jsval = "json option"

text \<open>
  Truthiness, as \<^verbatim>\<open>if (x)\<close>, \<^verbatim>\<open>!x\<close> and \<^verbatim>\<open>x || y\<close> test it: \<^verbatim>\<open>null\<close>, \<^verbatim>\<open>false\<close>,
  \<^verbatim>\<open>0\<close> and the empty string are falsy, every array and object is truthy.
\<close>

fun truthy :: "json \<Rightarrow> bool" where
  "truthy JNull = False"
| "truthy (JBool b) = b"
| "truthy (JNum n) = (n \<noteq> 0)"
| "truthy (JStr s) = (s \<noteq> [])"
| "truthy (JArr xs) = True"
| "truthy (JObj kvs) = True"

definition truthy_val :: "jsval \<Rightarrow> bool" where
  "truthy_val v = (case v of None \<Rightarrow> False | Some x \<Rightarrow> truthy x)"

text \<open>\<^verbatim>\<open>a || b\<close> where \<open>b\<close> is a value that is never \<^verbatim>\<open>undefined\<close>.\<close>

definition or_else :: "jsval \<Rightarrow> json \<Rightarrow> json" where
  "or_else a b = (case a of None \<Rightarrow> b | Some x \<Rightarrow> if truthy x then x else b)"

text \<open>
  The property read \<^verbatim>\<open>x.p\<close> for a value \<open>x\<close> other than \<^verbatim>\<open>null\<close> and \<^verbatim>\<open>undefined\<close>, for
  the property names the parser reads: an object gives its member (the last one when the
  name is written twice, as \<^verbatim>\<open>JSON.parse\<close> keeps it) or \<^verbatim>\<open>undefined\<close>; a boolean, number,
  string or array has none of these properties. Reading a property of \<^verbatim>\<open>null\<close> throws a
  TypeError instead: the parser below tests for \<^verbatim>\<open>null\<close> wherever the source can reach
  such a read.
\<close>

fun read_prop :: "json \<Rightarrow> string \<Rightarrow> jsval" where
  "read_prop (JObj kvs) p = map_of (rev kvs) p"
| "read_prop x p = None"

text \<open>
  Strict equality \<^verbatim>\<open>a === b\<close> of two values that come from different places of the parsed
  output: primitives are compared by value, while two arrays or objects are different
  objects and never identical.
\<close>

fun strict_eq :: "json \<Rightarrow> json \<Rightarrow> bool" where
  "strict_eq JNull JNull = True"
| "strict_eq (JBool a) (JBool b) = (a = b)"
| "strict_eq (JNum a) (JNum b) = (a = b)"
| "strict_eq (JStr a) (JStr b) = (a = b)"
| "strict_eq x y = False"

text \<open>
  The conversion to a string that \<^verbatim>\<open>+=\<close> on a string applies to its right operand
  (decimal digits for an integer, which is what JavaScript prints below \<open>10^21\<close>).
\<close>

fun show_nat :: "nat \<Rightarrow> string" where
  "show_nat n =
     (if n < 10 then [''0123456789'' ! n]
      else show_nat (n div 10) @ [''0123456789'' ! (n mod 10)])"

definition show_int :: "int \<Rightarrow> string" where
  "show_int i = (if i < 0 then CHR ''-'' # show_nat (nat (- i)) else show_nat (nat i))"

fun to_string :: "json \<Rightarrow> string"
  and join_elements :: "json list \<Rightarrow> string" where
  "to_string JNull = ''null''"
| "to_string (JBool b) = (if b then ''true'' else ''false'')"
| "to_string (JNum n) = show_int n"
| "to_string (JStr s) = s"
| "to_string (JArr xs) = join_elements xs"
| "to_string (JObj kvs) = ''[object Object]''"
| "join_elements [] = []"
| "join_elements [x] = (if x = JNull then [] else to_string x)"
| "join_elements (x # y # ys) =
     (if x = JNull then [] else to_string x) @ '','' @ join_elements (y # ys)"

definition to_string_val :: "jsval \<Rightarrow> string" where
  "to_string_val v = (case v of None \<Rightarrow> ''undefined'' | Some x \<Rightarrow> to_string x)"

text \<open>
  Converting a value to a primitive (in a template literal, as the right operand of
  \<^verbatim>\<open>+=\<close>, as a property key, in \<^verbatim>\<open>Math.round\<close>) throws a TypeError for an object
  with a member named \<^verbatim>\<open>toString\<close>: the member hides the inherited method and is no
  function. An array is converted through its elements. Every other value converts.
\<close>

fun printable :: "json \<Rightarrow> bool" where
  "printable (JObj kvs) = (''toString'' \<notin> set (map fst kvs))"
| "printable (JArr xs) = list_all printable xs"
| "printable x = True"

definition printable_val :: "jsval \<Rightarrow> bool" where
  "printable_val v = (case v of None \<Rightarrow> True | Some x \<Rightarrow> printable x)"

section \<open>The stream events and the run's result (claude.ts: ClaudeResult, ClaudeStreamEvent)\<close>

text \<open>
  The fields have the types the values have at run time: \<^verbatim>\<open>output\<close> (here
  \<open>output_text\<close>, \<open>output\<close> being a keyword), \<^verbatim>\<open>durationMs\<close>,
  \<^verbatim>\<open>costUsd\<close> and \<^verbatim>\<open>numTurns\<close> are copied from the parsed record without a check, so they
  are JavaScript values; \<^verbatim>\<open>exitCode\<close> is a number or \<^verbatim>\<open>null\<close> (\<open>None\<close>).
\<close>

record ClaudeResult =
  success :: bool
  output_text :: json
  timedOut :: bool
  exitCode :: "int option"
  durationMs :: json
  costUsd :: jsval
  numTurns :: jsval

text \<open>
  \<open>Thinking\<close>, \<open>TextDelta text accumulated\<close>, \<open>ToolUse toolName\<close>,
  \<open>ToolResult toolName durationSec\<close> and \<open>Complete result\<close> are the events of type
  \<^verbatim>\<open>thinking\<close>, \<^verbatim>\<open>text_delta\<close>, \<^verbatim>\<open>tool_use\<close>, \<^verbatim>\<open>tool_result\<close> and \<^verbatim>\<open>complete\<close>.
\<close>

datatype ClaudeStreamEvent =
    Thinking
  | TextDelta jsval string
  | ToolUse json
  | ToolResult json jsval
  | Complete ClaudeResult


section \<open>The stream parser (claude.ts: parseStreamLine)\<close>

text \<open>The parser state; \<^verbatim>\<open>currentToolName\<close> is \<open>JNull\<close> when no tool is tracked.\<close>

record parser_state =
  accumulatedText :: string
  currentToolName :: json
  isThinking :: bool

text \<open>
  One call of \<^verbatim>\<open>parseStreamLine\<close>: whether it threw a TypeError, the state it left, and
  the events it passed to \<^verbatim>\<open>onEvent\<close>, in order. What the call did before it threw stays
  done.
\<close>

datatype outcome = Outcome (threw: bool) (state_after: parser_state) (events: "ClaudeStreamEvent list")

definition returned :: "parser_state \<Rightarrow> ClaudeStreamEvent list \<Rightarrow> outcome" where
  "returned st evs = Outcome False st evs"

definition type_error :: "parser_state \<Rightarrow> ClaudeStreamEvent list \<Rightarrow> outcome" where
  "type_error st evs = Outcome True st evs"

definition emit_first :: "ClaudeStreamEvent list \<Rightarrow> outcome \<Rightarrow> outcome" where
  "emit_first evs oc = Outcome (threw oc) (state_after oc) (evs @ events oc)"

definition EMPTY_RESPONSE :: string where
  "EMPTY_RESPONSE =
     [CHR 0x28, CHR 0xEB, CHR 0xB9, CHR 0x88, CHR 0x20, CHR 0xEC, CHR 0x9D, CHR 0x91,
      CHR 0xEB, CHR 0x8B, CHR 0xB5, CHR 0x29]"

definition DEFAULT_TOOL :: string where
  "DEFAULT_TOOL = [CHR 0xEB, CHR 0x8F, CHR 0x84, CHR 0xEA, CHR 0xB5, CHR 0xAC]"

text \<open>
  \<^verbatim>\<open>eventType === "content_block_start"\<close>. The block of kind \<^verbatim>\<open>thinking\<close> sets the flag
  and emits only while the flag is unset; the block of kind \<^verbatim>\<open>tool_use\<close> stores the tool
  name, prints it in a log line (which throws for a name that does not convert to a
  string) and emits; the block of kind \<^verbatim>\<open>text\<close> clears the flag.
\<close>

definition contentBlockStart :: "json \<Rightarrow> parser_state \<Rightarrow> outcome" where
  "contentBlockStart event st =
     (case read_prop event ''content_block'' of
        None \<Rightarrow> returned st []
      | Some block \<Rightarrow>
          if \<not> truthy block then returned st []
          else if read_prop block ''type'' = Some (JStr ''thinking'') \<and> \<not> isThinking st then
            returned (st\<lparr>isThinking := True\<rparr>) [Thinking]
          else if read_prop block ''type'' = Some (JStr ''tool_use'') then
            (let toolName = or_else (read_prop block ''name'') (JStr ''unknown_tool'')
             in if \<not> printable toolName then type_error (st\<lparr>currentToolName := toolName\<rparr>) []
                else returned (st\<lparr>currentToolName := toolName\<rparr>) [ToolUse toolName])
          else if read_prop block ''type'' = Some (JStr ''text'') then
            returned (st\<lparr>isThinking := False\<rparr>) []
          else returned st [])"

text \<open>
  \<^verbatim>\<open>eventType === "content_block_delta"\<close>. The text is appended (converted to a string
  when it is none, which throws for a text that does not convert) and the flag cleared;
  then, when the buffer was empty, the log line calls \<^verbatim>\<open>text.substring\<close>, which throws
  for a \<^verbatim>\<open>text\<close> that is not a string.
\<close>

definition contentBlockDelta :: "json \<Rightarrow> parser_state \<Rightarrow> outcome" where
  "contentBlockDelta event st =
     (case read_prop event ''delta'' of
        None \<Rightarrow> returned st []
      | Some delta \<Rightarrow>
          if \<not> truthy delta then returned st []
          else if read_prop delta ''type'' = Some (JStr ''text_delta'') then
            (let text = read_prop delta ''text'';
                 waEmpty = (length (accumulatedText st) = 0);
                 st' = st\<lparr>accumulatedText := accumulatedText st @ to_string_val text,
                          isThinking := False\<rparr>
             in if \<not> printable_val text then type_error st []
                else if waEmpty \<and> (case text of Some (JStr s) \<Rightarrow> False | _ \<Rightarrow> True)
                then type_error st' []
                else returned st' [TextDelta text (accumulatedText st')])
          else returned st [])"

definition streamEvent :: "json \<Rightarrow> parser_state \<Rightarrow> outcome" where
  "streamEvent parsed st =
     (case read_prop parsed ''event'' of
        None \<Rightarrow> returned st []
      | Some event \<Rightarrow>
          if \<not> truthy event then returned st []
          else if read_prop event ''type'' = Some (JStr ''content_block_start'') then
            contentBlockStart event st
          else if read_prop event ''type'' = Some (JStr ''content_block_delta'') then
            contentBlockDelta event st
          else returned st [])"

text \<open>
  The loop over the content of an assistant message. \<^verbatim>\<open>block.type\<close> throws for a block
  that is \<^verbatim>\<open>null\<close>. A block of kind \<^verbatim>\<open>tool_use\<close> with a truthy name stores the name,
  prints it in a log line and emits, but only when the name is not identical to the
  tracked one.
\<close>

fun assistantBlocks :: "json list \<Rightarrow> parser_state \<Rightarrow> outcome" where
  "assistantBlocks [] st = returned st []"
| "assistantBlocks (block # blocks) st =
     (if block = JNull then type_error st []
      else if read_prop block ''type'' = Some (JStr ''tool_use'') \<and> truthy_val (read_prop block ''name'') then
        (let toolName = or_else (read_prop block ''name'') JNull
         in if \<not> strict_eq (currentToolName st) toolName then
              (if \<not> printable toolName then type_error (st\<lparr>currentToolName := toolName\<rparr>) []
               else emit_first [ToolUse toolName]
                      (assistantBlocks blocks (st\<lparr>currentToolName := toolName\<rparr>)))
            else assistantBlocks blocks st)
      else assistantBlocks blocks st)"

definition assistantTurn :: "json \<Rightarrow> parser_state \<Rightarrow> outcome" where
  "assistantTurn parsed st =
     (case read_prop parsed ''message'' of
        None \<Rightarrow> returned st []
      | Some message \<Rightarrow>
          if \<not> truthy message then returned st []
          else (case read_prop message ''content'' of
                  Some (JArr content) \<Rightarrow> assistantBlocks content st
                | _ \<Rightarrow> returned st []))"

text \<open>
  \<^verbatim>\<open>type === "user"\<close>: a first content item of kind \<^verbatim>\<open>tool_result\<close> emits the result
  for the tracked tool and clears the tracking. \<^verbatim>\<open>content[0].type\<close> throws for a first
  item that is \<^verbatim>\<open>null\<close>; \<^verbatim>\<open>toolResult?.durationSeconds\<close> is \<^verbatim>\<open>undefined\<close> for a missing or
  \<^verbatim>\<open>null\<close> result object. The log line before the event prints the tool name and, when
  the duration is truthy, rounds it.
\<close>

definition userTurn :: "json \<Rightarrow> parser_state \<Rightarrow> outcome" where
  "userTurn parsed st =
     (case read_prop parsed ''message'' of
        None \<Rightarrow> returned st []
      | Some message \<Rightarrow>
          if \<not> truthy message then returned st []
          else (case read_prop message ''content'' of
                  Some (JArr (first # others)) \<Rightarrow>
                    if first = JNull then type_error st []
                    else if read_prop first ''type'' = Some (JStr ''tool_result'') then
                      (let durationSec =
                             (case read_prop parsed ''tool_use_result'' of
                                None \<Rightarrow> None
                              | Some toolResult \<Rightarrow>
                                  if toolResult = JNull then None
                                  else read_prop toolResult ''durationSeconds'');
                           toolName = (if truthy (currentToolName st) then currentToolName st
                                       else JStr DEFAULT_TOOL)
                       in if \<not> printable toolName
                             \<or> (truthy_val durationSec \<and> \<not> printable_val durationSec)
                          then type_error st []
                          else returned (st\<lparr>currentToolName := JNull\<rparr>)
                                 [ToolResult toolName durationSec])
                    else returned st []
                | _ \<Rightarrow> returned st []))"

text \<open>
  \<^verbatim>\<open>type === "result"\<close>. The log line prints \<^verbatim>\<open>resultText.length\<close> (a member of that
  name when the text is an object), the duration and the number of turns when it is
  truthy, and calls \<^verbatim>\<open>costUsd?.toFixed(4)\<close>, which throws when the cost is neither
  missing, \<^verbatim>\<open>null\<close> nor a number; when the log line does not throw the \<^verbatim>\<open>complete\<close> event
  is emitted. The state is not changed.
\<close>

definition resultRecord :: "json \<Rightarrow> parser_state \<Rightarrow> outcome" where
  "resultRecord parsed st =
     (let resultText = or_else (read_prop parsed ''result'')
                         (if accumulatedText st \<noteq> [] then JStr (accumulatedText st)
                          else JStr EMPTY_RESPONSE);
          durationMs = or_else (read_prop parsed ''duration_ms'') (JNum 0);
          costUsd = read_prop parsed ''total_cost_usd'';
          numTurns = read_prop parsed ''num_turns'';
          isError = read_prop parsed ''is_error''
      in if (case resultText of JObj kvs \<Rightarrow> \<not> printable_val (read_prop resultText ''length'')
                               | _ \<Rightarrow> False)
            \<or> \<not> printable durationMs
            \<or> (case costUsd of None \<Rightarrow> False | Some JNull \<Rightarrow> False | Some (JNum n) \<Rightarrow> False
                               | _ \<Rightarrow> True)
            \<or> (truthy_val numTurns \<and> \<not> printable_val numTurns)
         then type_error st []
         else returned st
                [Complete \<lparr>success = \<not> truthy_val isError, output_text = resultText,
                           timedOut = False, exitCode = Some 0, durationMs = durationMs,
                           costUsd = costUsd, numTurns = numTurns\<rparr>])"

text \<open>
  The dispatch on \<^verbatim>\<open>parsed.type\<close>, which throws when the parsed line is the literal
  \<^verbatim>\<open>null\<close>. The source writes four \<^verbatim>\<open>if\<close> statements in a row; their tests compare the
  same value with four different strings, so at most one of them runs, and the early
  \<^verbatim>\<open>return\<close>s of the first leave nothing undone.
\<close>

definition parseRecord :: "json \<Rightarrow> parser_state \<Rightarrow> outcome" where
  "parseRecord parsed st =
     (if parsed = JNull then type_error st []
      else if read_prop parsed ''type'' = Some (JStr ''stream_event'') then streamEvent parsed st
      else if read_prop parsed ''type'' = Some (JStr ''assistant'') then assistantTurn parsed st
      else if read_prop parsed ''type'' = Some (JStr ''user'') then userTurn parsed st
      else if read_prop parsed ''type'' = Some (JStr ''result'') then resultRecord parsed st
      else returned st [])"

text \<open>
  \<^verbatim>\<open>parseStreamLine(line, state, onEvent)\<close>. \<open>JSON_parse\<close> is \<^verbatim>\<open>JSON.parse\<close>: \<open>None\<close> when
  it throws, which the source catches and answers by returning.
\<close>

definition parseStreamLine :: "(string \<Rightarrow> json option) \<Rightarrow> string \<Rightarrow> parser_state \<Rightarrow> outcome" where
  "parseStreamLine JSON_parse line st =
     (case JSON_parse line of
        None \<Rightarrow> returned st []
      | Some parsed \<Rightarrow> parseRecord parsed st)"

text \<open>The parser state a run starts with.\<close>

definition fresh_parser :: parser_state where
  "fresh_parser = \<lparr>accumulatedText = [], currentToolName = JNull, isThinking = False\<rparr>"

text \<open>The parser called on a sequence of parsed records, one after the other.\<close>

fun parseRecords :: "json list \<Rightarrow> parser_state \<Rightarrow> parser_state \<times> ClaudeStreamEvent list" where
  "parseRecords [] st = (st, [])"
| "parseRecords (r # rs) st =
     (let oc = parseRecord r st;
          (st', evs) = parseRecords rs (state_after oc)
      in (st', events oc @ evs))"

section \<open>Kinds of records\<close>

text \<open>
  The vocabulary of the specification, read off the parser's tests. A content-start
  record is a record of type \<^verbatim>\<open>stream_event\<close> whose event is of type
  \<^verbatim>\<open>content_block_start\<close> and has a content block; its sub-kind is the block's type.
\<close>

definition content_start_block :: "json \<Rightarrow> json option" where
  "content_start_block parsed =
     (if read_prop parsed ''type'' = Some (JStr ''stream_event'') then
        (case read_prop parsed ''event'' of
           None \<Rightarrow> None
         | Some event \<Rightarrow>
             if truthy event \<and> read_prop event ''type'' = Some (JStr ''content_block_start'') then
               (case read_prop event ''content_block'' of
                  None \<Rightarrow> None
                | Some block \<Rightarrow> if truthy block then Some block else None)
             else None)
      else None)"

text \<open>
  The tool identifier of a content-start record of sub-kind tool invocation: the block's
  name, or \<^verbatim>\<open>unknown_tool\<close> when the name is missing or falsy.
\<close>

definition tool_start_name :: "json \<Rightarrow> json option" where
  "tool_start_name parsed =
     (case content_start_block parsed of
        None \<Rightarrow> None
      | Some block \<Rightarrow>
          if read_prop block ''type'' = Some (JStr ''tool_use'')
          then Some (or_else (read_prop block ''name'') (JStr ''unknown_tool''))
          else None)"

definition is_thinking_start :: "json \<Rightarrow> bool" where
  "is_thinking_start parsed =
     (case content_start_block parsed of
        None \<Rightarrow> False
      | Some block \<Rightarrow> read_prop block ''type'' = Some (JStr ''thinking''))"







text \<open>Records as the child process writes them, for the examples.\<close>

definition stream_event_record :: "json \<Rightarrow> json" where
  "stream_event_record event = JObj [(''type'', JStr ''stream_event''), (''event'', event)]"

definition content_start_record :: "json \<Rightarrow> json" where
  "content_start_record block =
     stream_event_record
       (JObj [(''type'', JStr ''content_block_start''), (''content_block'', block)])"

definition text_delta_record :: "string \<Rightarrow> json" where
  "text_delta_record s =
     stream_event_record
       (JObj [(''type'', JStr ''content_block_delta''),
              (''delta'', JObj [(''type'', JStr ''text_delta''), (''text'', JStr s)])])"

definition tool_use_block :: "string \<Rightarrow> json" where
  "tool_use_block name = JObj [(''type'', JStr ''tool_use''), (''name'', JStr name)]"

definition thinking_block :: json where
  "thinking_block = JObj [(''type'', JStr ''thinking'')]"


definition result_record :: json where
  "result_record = JObj [(''type'', JStr ''result'')]"

section \<open>The process supervisor (claude.ts: runClaudeStream)\<close>

text \<open>
  Time is in milliseconds since the call (\<^verbatim>\<open>startTime\<close> is 0), and a timer's callback runs
  at the timer's deadline. The supervisor's variables fall in two groups. The first group
  is the timeout machinery: \<^verbatim>\<open>killed\<close>, \<^verbatim>\<open>killAttempted\<close>, the two timers (the deadline
  of each while it is pending), whether the listener that clears the kill timer on
  \<^verbatim>\<open>exit\<close> is registered, and the signals issued so far with their times. \<^verbatim>\<open>pid\<close> is
  \<^verbatim>\<open>child.pid\<close>, \<open>None\<close> when it is \<^verbatim>\<open>undefined\<close>. The heartbeat interval only writes
  log lines and is left out, as are all other log lines.
\<close>

datatype signal =
    SIGTERM_to_child
  | SIGKILL_to_group nat

record control =
  pid :: "nat option"
  killed :: bool
  killAttempted :: bool
  timer :: "nat option"
  killTimer :: "nat option"
  exitListener :: bool
  signals :: "(nat \<times> signal) list"

definition GRACE_MS :: nat where
  "GRACE_MS = 5000"

text \<open>
  The callback of \<^verbatim>\<open>setTimeout(..., timeoutMs)\<close>, run at time \<open>now\<close>: it sets
  \<^verbatim>\<open>killed\<close>, and on the first attempt sends SIGTERM to the child, starts the kill timer
  of 5000 ms and registers the \<^verbatim>\<open>exit\<close> listener that clears it.
\<close>

definition on_timeout :: "nat \<Rightarrow> control \<Rightarrow> control" where
  "on_timeout now c =
     (let c1 = c\<lparr>killed := True\<rparr>
      in if \<not> killAttempted c1 then
           c1\<lparr>killAttempted := True,
              signals := signals c1 @ [(now, SIGTERM_to_child)],
              killTimer := Some (now + GRACE_MS),
              exitListener := True\<rparr>
         else c1)"

text \<open>
  The callback of the kill timer: \<^verbatim>\<open>if (child.pid) process.kill(-child.pid, "SIGKILL")\<close>
  inside a \<^verbatim>\<open>try\<close> whose \<^verbatim>\<open>catch\<close> is empty, so a failing delivery changes nothing.
\<close>

definition on_kill_timer :: "nat \<Rightarrow> control \<Rightarrow> control" where
  "on_kill_timer now c =
     (case pid c of
        None \<Rightarrow> c
      | Some p \<Rightarrow> if p \<noteq> 0 then c\<lparr>signals := signals c @ [(now, SIGKILL_to_group p)]\<rparr> else c)"

text \<open>
  Time passes up to \<open>t\<close>: the timers that are due run, the timeout timer first (the kill
  timer is started by its callback, 5000 ms later).
\<close>

definition fire_timeout :: "nat \<Rightarrow> control \<Rightarrow> control" where
  "fire_timeout t c =
     (case timer c of
        None \<Rightarrow> c
      | Some d \<Rightarrow> if d \<le> t then on_timeout d (c\<lparr>timer := None\<rparr>) else c)"

definition fire_kill_timer :: "nat \<Rightarrow> control \<Rightarrow> control" where
  "fire_kill_timer t c =
     (case killTimer c of
        None \<Rightarrow> c
      | Some d \<Rightarrow> if d \<le> t then on_kill_timer d (c\<lparr>killTimer := None\<rparr>) else c)"

definition advance :: "nat \<Rightarrow> control \<Rightarrow> control" where
  "advance t c = fire_kill_timer t (fire_timeout t c)"

text \<open>
  What reaches the supervisor from outside: a line of the child's standard output, the
  child's \<^verbatim>\<open>exit\<close>, \<^verbatim>\<open>close\<close> (with the exit code, \<open>None\<close> for \<^verbatim>\<open>null\<close>) and \<^verbatim>\<open>error\<close>
  (with the error's message) events, and \<open>Elapsed\<close>, which is nothing but the passing of
  time up to the moment it is stamped with.
\<close>

datatype input =
    Line string
  | ProcessExit
  | ProcessClose "int option"
  | ProcessError string
  | Elapsed

text \<open>The part of the listeners that touches the timeout machinery.\<close>

fun control_handle :: "input \<Rightarrow> control \<Rightarrow> control" where
  "control_handle (Line l) c = c"
| "control_handle ProcessExit c = (if exitListener c then c\<lparr>killTimer := None\<rparr> else c)"
| "control_handle (ProcessClose code) c = c\<lparr>timer := None\<rparr>"
| "control_handle (ProcessError msg) c = c\<lparr>timer := None\<rparr>"
| "control_handle Elapsed c = c"

definition control_step :: "control \<Rightarrow> nat \<times> input \<Rightarrow> control" where
  "control_step c ti = control_handle (snd ti) (advance (fst ti) c)"

text \<open>
  The second group of variables: the parser state, the events passed to the caller's
  \<^verbatim>\<open>onEvent\<close> so far, the value the returned promise is resolved with (the first
  \<^verbatim>\<open>resolve\<close> wins), \<^verbatim>\<open>resultResolved\<close>, whether the line reader is closed, and the
  number of exceptions that escaped a listener.
\<close>

record run_state =
  control :: control
  parser :: parser_state
  emitted :: "ClaudeStreamEvent list"
  resolved :: "ClaudeResult option"
  resultResolved :: bool
  readerClosed :: bool
  uncaught :: nat

definition resolve :: "ClaudeResult \<Rightarrow> run_state \<Rightarrow> run_state" where
  "resolve r s = (case resolved s of None \<Rightarrow> s\<lparr>resolved := Some r\<rparr> | Some r0 \<Rightarrow> s)"

definition is_space :: "char \<Rightarrow> bool" where
  "is_space c = (c \<in> set [CHR 0x09, CHR 0x0A, CHR 0x0B, CHR 0x0C, CHR 0x0D, CHR 0x20, CHR 0xA0])"

definition trim :: "string \<Rightarrow> string" where
  "trim s = rev (dropWhile is_space (rev (dropWhile is_space s)))"

text \<open>
  The callback the line listener gives to the parser: every event goes to the caller's
  \<^verbatim>\<open>onEvent\<close>; the first \<^verbatim>\<open>complete\<close> event sets \<^verbatim>\<open>resultResolved\<close> and resolves the
  promise.
\<close>

fun forward :: "ClaudeStreamEvent list \<Rightarrow> run_state \<Rightarrow> run_state" where
  "forward [] s = s"
| "forward (e # es) s =
     (let s1 = s\<lparr>emitted := emitted s @ [e]\<rparr>
      in forward es
           (case e of
              Complete r \<Rightarrow>
                if \<not> resultResolved s1 then resolve r (s1\<lparr>resultResolved := True\<rparr>) else s1
            | _ \<Rightarrow> s1))"

text \<open>
  The \<^verbatim>\<open>line\<close> listener: a line that is blank after trimming is dropped, any other goes
  through the parser. An exception of the parser escapes the listener; it is counted, and
  the run goes on with the next line delivered.
\<close>

definition on_line :: "(string \<Rightarrow> json option) \<Rightarrow> string \<Rightarrow> run_state \<Rightarrow> run_state" where
  "on_line JSON_parse line s =
     (if readerClosed s \<or> trim line = [] then s
      else let oc = parseStreamLine JSON_parse line (parser s);
               s1 = forward (events oc) (s\<lparr>parser := state_after oc\<rparr>)
           in if threw oc then s1\<lparr>uncaught := Suc (uncaught s1)\<rparr> else s1)"

text \<open>
  The \<^verbatim>\<open>close\<close> listener at time \<open>now\<close> (the timer is cleared by \<open>control_handle\<close>): it
  closes the line reader, and unless a result was resolved it builds the result from the
  exit code and \<^verbatim>\<open>killed\<close>, emits \<^verbatim>\<open>complete\<close> and resolves the promise.
\<close>

definition on_close :: "nat \<Rightarrow> int option \<Rightarrow> run_state \<Rightarrow> run_state" where
  "on_close now code s =
     (let s1 = s\<lparr>readerClosed := True\<rparr>
      in if \<not> resultResolved s1 then
           (let text = trim (accumulatedText (parser s1));
                result = \<lparr>success = (\<not> killed (control s1) \<and> code = Some 0),
                          output_text = JStr (if text \<noteq> [] then text else EMPTY_RESPONSE),
                          timedOut = killed (control s1),
                          exitCode = code,
                          durationMs = JNum (int now),
                          costUsd = None,
                          numTurns = None\<rparr>
            in resolve result (s1\<lparr>emitted := emitted s1 @ [Complete result]\<rparr>))
         else s1)"

definition PROCESS_ERROR_PREFIX :: string where
  "PROCESS_ERROR_PREFIX =
     [CHR 0xED, CHR 0x94, CHR 0x84, CHR 0xEB, CHR 0xA1, CHR 0x9C, CHR 0xEC, CHR 0x84,
      CHR 0xB8, CHR 0xEC, CHR 0x8A, CHR 0xA4, CHR 0x20, CHR 0xEC, CHR 0x98, CHR 0xA4,
      CHR 0xEB, CHR 0xA5, CHR 0x98, CHR 0x3A, CHR 0x20]"

text \<open>The \<^verbatim>\<open>error\<close> listener at time \<open>now\<close>.\<close>

definition on_error :: "nat \<Rightarrow> string \<Rightarrow> run_state \<Rightarrow> run_state" where
  "on_error now msg s =
     (if \<not> resultResolved s then
        (let result = \<lparr>success = False,
                       output_text = JStr (PROCESS_ERROR_PREFIX @ msg),
                       timedOut = False,
                       exitCode = None,
                       durationMs = JNum (int now),
                       costUsd = None,
                       numTurns = None\<rparr>
         in resolve result (s\<lparr>emitted := emitted s @ [Complete result]\<rparr>))
      else s)"

text \<open>
  One input at its time: first the timers that are due by then run, then the listener of
  the input.
\<close>

definition step :: "(string \<Rightarrow> json option) \<Rightarrow> run_state \<Rightarrow> nat \<times> input \<Rightarrow> run_state" where
  "step JSON_parse s ti =
     (let s1 = s\<lparr>control := control_step (control s) ti\<rparr>
      in case snd ti of
           Line l \<Rightarrow> on_line JSON_parse l s1
         | ProcessExit \<Rightarrow> s1
         | ProcessClose code \<Rightarrow> on_close (fst ti) code s1
         | ProcessError msg \<Rightarrow> on_error (fst ti) msg s1
         | Elapsed \<Rightarrow> s1)"

text \<open>
  \<^verbatim>\<open>spawn\<close> either throws (the thrown value's message when it is an \<^verbatim>\<open>Error\<close>, and the
  time at which it is caught) or returns the child, whose \<^verbatim>\<open>pid\<close> may be \<^verbatim>\<open>undefined\<close>.
\<close>

datatype spawn_result =
    SpawnThrows "string option" nat
  | Spawned "nat option"

definition SPAWN_FAILED_PREFIX :: string where
  "SPAWN_FAILED_PREFIX =
     [CHR 0x43, CHR 0x6C, CHR 0x61, CHR 0x75, CHR 0x64, CHR 0x65, CHR 0x20, CHR 0x43,
      CHR 0x4C, CHR 0x49, CHR 0x20, CHR 0xEC, CHR 0x8B, CHR 0xA4, CHR 0xED, CHR 0x96,
      CHR 0x89, CHR 0x20, CHR 0xEC, CHR 0x8B, CHR 0xA4, CHR 0xED, CHR 0x8C, CHR 0xA8,
      CHR 0x3A, CHR 0x20]"

definition UNKNOWN_ERROR :: string where
  "UNKNOWN_ERROR =
     [CHR 0xEC, CHR 0x95, CHR 0x8C, CHR 0x20, CHR 0xEC, CHR 0x88, CHR 0x98, CHR 0x20,
      CHR 0xEC, CHR 0x97, CHR 0x86, CHR 0xEB, CHR 0x8A, CHR 0x94, CHR 0x20, CHR 0xEC,
      CHR 0x98, CHR 0xA4, CHR 0xEB, CHR 0xA5, CHR 0x98]"

text \<open>The variables as the promise's executor declares them, before \<^verbatim>\<open>spawn\<close>.\<close>

definition initial :: run_state where
  "initial =
     \<lparr>control = \<lparr>pid = None, killed = False, killAttempted = False, timer = None,
                  killTimer = None, exitListener = False, signals = []\<rparr>,
      parser = fresh_parser,
      emitted = [], resolved = None, resultResolved = False, readerClosed = False,
      uncaught = 0\<rparr>"

text \<open>
  The result of the \<^verbatim>\<open>catch\<close> around \<^verbatim>\<open>spawn\<close>: the failure result is emitted and
  resolved, and the executor returns before any timer or listener exists.
\<close>

definition spawn_failed :: "string option \<Rightarrow> nat \<Rightarrow> run_state" where
  "spawn_failed err now =
     (let result = \<lparr>success = False,
                    output_text = JStr (SPAWN_FAILED_PREFIX @
                                     (case err of Some msg \<Rightarrow> msg | None \<Rightarrow> UNKNOWN_ERROR)),
                    timedOut = False,
                    exitCode = None,
                    durationMs = JNum (int now),
                    costUsd = None,
                    numTurns = None\<rparr>
      in resolve result (initial\<lparr>emitted := [Complete result]\<rparr>))"

text \<open>After a successful \<^verbatim>\<open>spawn\<close>: the timeout timer is pending with deadline \<open>timeoutMs\<close>.\<close>

definition spawned :: "nat \<Rightarrow> nat option \<Rightarrow> run_state" where
  "spawned timeoutMs p = initial\<lparr>control := (control initial)\<lparr>pid := p, timer := Some timeoutMs\<rparr>\<rparr>"

text \<open>
  \<^verbatim>\<open>runClaudeStream(prompt, cwd, timeoutMs, onEvent)\<close> as far as its events, its result and
  its signals go: the state after the inputs \<open>inputs\<close>, each stamped with its time. When
  \<^verbatim>\<open>spawn\<close> throws there is no child and no listener, so nothing reaches the supervisor.
\<close>

definition runClaudeStream ::
  "(string \<Rightarrow> json option) \<Rightarrow> nat \<Rightarrow> spawn_result \<Rightarrow> (nat \<times> input) list \<Rightarrow> run_state" where
  "runClaudeStream JSON_parse timeoutMs sp inputs =
     (case sp of
        SpawnThrows err now \<Rightarrow> spawn_failed err now
      | Spawned p \<Rightarrow> foldl (step JSON_parse) (spawned timeoutMs p) inputs)"

section \<open>Kinds of inputs and states of a run\<close>

text \<open>The kill timer is only ever pending after the timeout timer has fired.\<close>

definition control_ok :: "control \<Rightarrow> bool" where
  "control_ok c = (killTimer c = None \<or> timer c = None)"

text \<open>An input that is not a line \<^verbatim>\<open>JSON.parse\<close> rejects.\<close>

definition well_formed :: "(string \<Rightarrow> json option) \<Rightarrow> nat \<times> input \<Rightarrow> bool" where
  "well_formed P ti = (case snd ti of Line l \<Rightarrow> P l \<noteq> None | _ \<Rightarrow> True)"











text \<open>Sample lines of the child's output, and the value of \<^verbatim>\<open>JSON.parse\<close> on them; every other
  line used in the examples is no JSON text.\<close>

definition quoted :: "string \<Rightarrow> string" where
  "quoted s = CHR 0x22 # s @ [CHR 0x22]"

definition line_result :: string where
  "line_result = ''{'' @ quoted ''type'' @ '':'' @ quoted ''result'' @ ''}''"

definition line_hi :: string where
  "line_hi =
     ''{'' @ quoted ''type'' @ '':'' @ quoted ''stream_event'' @ '','' @ quoted ''event'' @ '':{''
       @ quoted ''type'' @ '':'' @ quoted ''content_block_delta'' @ '','' @ quoted ''delta'' @ '':{''
       @ quoted ''type'' @ '':'' @ quoted ''text_delta'' @ '','' @ quoted ''text'' @ '':''
       @ quoted ''Hi'' @ ''}}}''"

definition sample_parse :: "string \<Rightarrow> json option" where
  "sample_parse line =
     (if line = line_result then Some result_record
      else if line = line_hi then Some (text_delta_record ''Hi'')
      else None)"

section \<open>The idempotency cache (index.ts: isDuplicate)\<close>

text \<open>
  \<^verbatim>\<open>const MAX_CACHE_SIZE = 10000;\<close> and the window of \<^verbatim>\<open>5 * 60 * 1000\<close> ms that the source
  writes out twice.
\<close>

definition MAX_CACHE_SIZE :: nat where
  "MAX_CACHE_SIZE = 10000"

definition WINDOW_MS :: nat where
  "WINDOW_MS = 5 * 60 * 1000"

text \<open>
  \<^verbatim>\<open>processed\<close> is a \<^verbatim>\<open>Map\<close> from key to insertion time: a list of pairs with distinct
  keys, in insertion order. \<open>expiry\<close> holds the pending \<^verbatim>\<open>setTimeout\<close> callbacks: the
  deadline of each and the key it deletes. Times are in milliseconds (\<^verbatim>\<open>Date.now()\<close>).
\<close>

record cache =
  processed :: "(string \<times> nat) list"
  expiry :: "(nat \<times> string) list"

definition empty_cache :: cache where
  "empty_cache = \<lparr>processed = [], expiry = []\<rparr>"

text \<open>\<^verbatim>\<open>processed.has(key)\<close>.\<close>

definition has :: "cache \<Rightarrow> string \<Rightarrow> bool" where
  "has c key = (key \<in> fst ` set (processed c))"

text \<open>
  \<^verbatim>\<open>isDuplicate(key)\<close> at time \<open>now\<close>. A key that is present returns \<^verbatim>\<open>true\<close> at once. An
  absent key is set with the current time; then, when the size exceeds
  \<^verbatim>\<open>MAX_CACHE_SIZE\<close>, the entries with \<^verbatim>\<open>ts < Date.now() - 5 * 60 * 1000\<close> are deleted;
  then the key's own deletion is scheduled 5 minutes ahead, and \<^verbatim>\<open>false\<close> is returned.
\<close>

definition isDuplicate :: "nat \<Rightarrow> string \<Rightarrow> cache \<Rightarrow> bool \<times> cache" where
  "isDuplicate now key c =
     (if has c key then (True, c)
      else let p1 = processed c @ [(key, now)];
               p2 = (if MAX_CACHE_SIZE < length p1
                     then filter (\<lambda>kt. \<not> snd kt + WINDOW_MS < now) p1
                     else p1)
           in (False, c\<lparr>processed := p2, expiry := expiry c @ [(now + WINDOW_MS, key)]\<rparr>))"

text \<open>
  Time passes up to \<open>t\<close>: every pending callback whose deadline has come runs
  \<^verbatim>\<open>processed.delete(key)\<close>.
\<close>

definition due_keys :: "nat \<Rightarrow> cache \<Rightarrow> string list" where
  "due_keys t c = map snd (filter (\<lambda>dk. fst dk \<le> t) (expiry c))"

definition expire :: "nat \<Rightarrow> cache \<Rightarrow> cache" where
  "expire t c =
     c\<lparr>processed := filter (\<lambda>kt. fst kt \<notin> set (due_keys t c)) (processed c),
       expiry := filter (\<lambda>dk. \<not> fst dk \<le> t) (expiry c)\<rparr>"

text \<open>
  The specification's \<^verbatim>\<open>admit\<close>: the negation of \<^verbatim>\<open>isDuplicate\<close>, called at time \<open>t\<close> after
  the callbacks due by then have run.
\<close>

definition admit :: "nat \<Rightarrow> string \<Rightarrow> cache \<Rightarrow> bool \<times> cache" where
  "admit t key c =
     (\<not> fst (isDuplicate t key (expire t c)), snd (isDuplicate t key (expire t c)))"

text \<open>A sequence of calls, each with its time and key: the answers and the cache left.\<close>

fun serve :: "cache \<Rightarrow> (nat \<times> string) list \<Rightarrow> bool list \<times> cache" where
  "serve c [] = ([], c)"
| "serve c (tk # rest) =
     (let r = admit (fst tk) (snd tk) c;
          rs = serve (snd r) rest
      in (fst r # fst rs, snd rs))"



section \<open>The update coalescer (index.ts: createStreamUpdater)\<close>

text \<open>
  The status line is one of five texts, which the source writes in Korean with an emoji:
  the initial one, and the ones for \<^verbatim>\<open>thinking\<close>, for \<^verbatim>\<open>tool_use\<close> (with the tool's
  label), for \<^verbatim>\<open>tool_result\<close> and for \<^verbatim>\<open>text_delta\<close>.
\<close>

datatype status_line =
    StatusWaiting
  | StatusThinking
  | StatusTool json
  | StatusAnalyzing
  | StatusWriting

text \<open>
  What \<^verbatim>\<open>buildMessage\<close> composes its text from: the tool history (one entry per completed
  tool: its name and duration), the status line and the accumulated text. The layout of
  the text (joining, preview window, final clamp) is not modelled.
\<close>

record message =
  history :: "(json \<times> jsval) list"
  status :: status_line
  preview :: string

text \<open>
  The closure variables of \<^verbatim>\<open>createStreamUpdater\<close>; \<open>latestText\<close> is its
  \<^verbatim>\<open>accumulatedText\<close> (the parser state has a field of that name). \<open>intervalActive\<close>
  says that \<^verbatim>\<open>intervalTimer\<close> has not been cleared. \<open>pushes\<close> lists the calls of
  \<^verbatim>\<open>client.chat.update\<close> started so far, and \<open>outstanding\<close> counts those that have not
  settled yet.
\<close>

record updater =
  latestText :: string
  statusLine :: status_line
  toolHistory :: "(json \<times> jsval) list"
  dirty :: bool
  flushing :: bool
  stopped :: bool
  intervalActive :: bool
  pushes :: "message list"
  outstanding :: nat





text \<open>\<^verbatim>\<open>onEvent(event)\<close> and \<^verbatim>\<open>cleanup()\<close>.\<close>

fun onEvent :: "ClaudeStreamEvent \<Rightarrow> updater \<Rightarrow> updater" where
  "onEvent e u =
     (if stopped u then u
      else case e of
             Thinking \<Rightarrow> u\<lparr>statusLine := StatusThinking, dirty := True\<rparr>
           | ToolUse toolName \<Rightarrow> u\<lparr>statusLine := StatusTool toolName, dirty := True\<rparr>
           | ToolResult toolName durationSec \<Rightarrow>
               u\<lparr>toolHistory := toolHistory u @ [(toolName, durationSec)],
                  statusLine := StatusAnalyzing, dirty := True\<rparr>
           | TextDelta text accumulated \<Rightarrow>
               u\<lparr>latestText := accumulated, statusLine := StatusWriting, dirty := True\<rparr>
           | Complete result \<Rightarrow> u\<lparr>stopped := True\<rparr>)"







section \<open>Results about prompt validation\<close>

lemma word_at_unsafe: "word_at ''--unsafe'' ''--unsafe''"
  by (simp add: ascii_lower_def)

lemma first_call_unsafe: "validatePrompt 0 ''--unsafe'' = (Some ForbiddenPattern, 8)"
  by (simp add: validatePrompt_def regex_test_def FORBIDDEN_PATTERNS_def ascii_lower_def)

lemma second_call_unsafe: "validatePrompt 8 ''--unsafe'' = (None, 0)"
  by (simp add: validatePrompt_def regex_test_def FORBIDDEN_PATTERNS_def MAX_PROMPT_LENGTH_def)

text \<open>
  C1. The claim: every prompt that contains a forbidden pattern is rejected by
  \<^verbatim>\<open>validatePrompt\<close> on every call, whatever was validated before. The code does not do
  that: the prompt \<^verbatim>\<open>--unsafe\<close> contains a forbidden pattern and is rejected by the first
  call, which leaves \<^verbatim>\<open>lastIndex = 8\<close>; the second call with the same prompt starts its
  search at index 8, finds nothing, and returns \<^verbatim>\<open>null\<close>: the prompt is accepted.
\<close>

theorem validatePrompt_second_call_accepts:
  "contains_forbidden ''--unsafe''
   \<and> validate_all 0 [''--unsafe'', ''--unsafe''] = [Some ForbiddenPattern, None]"
  by (simp add: contains_forbidden_def first_call_unsafe second_call_unsafe
      FORBIDDEN_PATTERNS_def ascii_lower_def)

section \<open>Results about the stream parser\<close>

lemma read_prop_not_null: "read_prop x p = Some v \<Longrightarrow> x \<noteq> JNull"
  by (cases x) auto


lemma parse_tool_start:
  assumes "tool_start_name parsed = Some toolName" and "printable toolName"
  shows "parseRecord parsed st
           = Outcome False (st\<lparr>currentToolName := toolName\<rparr>) [ToolUse toolName]"
  using assms
  by (auto simp: tool_start_name_def content_start_block_def parseRecord_def streamEvent_def
      contentBlockStart_def returned_def Let_def dest: read_prop_not_null
      split: option.splits if_splits)

lemma parse_thinking_start:
  assumes "is_thinking_start parsed"
  shows "parseRecord parsed st =
           (if isThinking st then Outcome False st []
            else Outcome False (st\<lparr>isThinking := True\<rparr>) [Thinking])"
  using assms
  by (auto simp: is_thinking_start_def content_start_block_def parseRecord_def streamEvent_def
      contentBlockStart_def returned_def Let_def dest: read_prop_not_null
      split: option.splits if_splits)

lemma tool_start_example:
  "tool_start_name (content_start_record (tool_use_block n))
     = Some (if n = [] then JStr ''unknown_tool'' else JStr n)"
  by (simp add: tool_start_name_def content_start_block_def content_start_record_def
      stream_event_record_def tool_use_block_def or_else_def)

lemma thinking_start_example: "is_thinking_start (content_start_record thinking_block)"
  by (simp add: is_thinking_start_def content_start_block_def content_start_record_def
      stream_event_record_def thinking_block_def)

text \<open>
  C5, as the code has it. A content-start record of sub-kind tool invocation, whose tool
  identifier converts to a string (as every string does), records the identifier as the
  active tool and emits \<^verbatim>\<open>tool_use\<close>; it leaves the thinking flag (and the accumulated
  text) as they were. So a thinking content-start record that follows
  it emits \<^verbatim>\<open>thinking\<close> only when the flag was unset before the tool invocation.
\<close>

theorem tool_start_keeps_thinking_flag:
  assumes "tool_start_name parsed = Some toolName" and "printable toolName"
    and "is_thinking_start next_record"
  shows "parseRecord parsed st
           = Outcome False (st\<lparr>currentToolName := toolName\<rparr>) [ToolUse toolName]
       \<and> isThinking (state_after (parseRecord parsed st)) = isThinking st
       \<and> events (parseRecord next_record (state_after (parseRecord parsed st)))
           = (if isThinking st then [] else [Thinking])"
  using assms by (simp add: parse_tool_start parse_thinking_start)

theorem tool_start_keeps_thinking_flag_witness:
  "tool_start_name (content_start_record (tool_use_block ''Bash'')) = Some (JStr ''Bash'')
   \<and> printable (JStr ''Bash'')
   \<and> is_thinking_start (content_start_record thinking_block)
   \<and> parseRecord (content_start_record (tool_use_block ''Bash'')) fresh_parser
       = Outcome False (fresh_parser\<lparr>currentToolName := JStr ''Bash''\<rparr>) [ToolUse (JStr ''Bash'')]
   \<and> events (parseRecord (content_start_record thinking_block)
         (state_after (parseRecord (content_start_record (tool_use_block ''Bash'')) fresh_parser)))
       = [Thinking]"
proof -
  have a: "tool_start_name (content_start_record (tool_use_block ''Bash'')) = Some (JStr ''Bash'')"
    by (simp add: tool_start_example)
  have b: "is_thinking_start (content_start_record thinking_block)"
    by (rule thinking_start_example)
  have c: "\<not> isThinking fresh_parser"
    by (simp add: fresh_parser_def)
  have p: "printable (JStr ''Bash'')"
    by simp
  from tool_start_keeps_thinking_flag [OF a p b, of fresh_parser] a b c show ?thesis
    by auto
qed

text \<open>
  C5 as the claim states it fails: after a thinking record has set the flag, a tool
  invocation does not clear it, and the thinking record after the tool invocation emits
  nothing. The three records emit two events.
\<close>

theorem tool_start_does_not_clear_thinking:
  "parseRecords [content_start_record thinking_block,
                 content_start_record (tool_use_block ''Bash''),
                 content_start_record thinking_block] fresh_parser
   = (\<lparr>accumulatedText = [], currentToolName = JStr ''Bash'', isThinking = True\<rparr>,
      [Thinking, ToolUse (JStr ''Bash'')])"
  by (simp add: fresh_parser_def parseRecord_def streamEvent_def contentBlockStart_def
      returned_def content_start_record_def stream_event_record_def tool_use_block_def
      thinking_block_def or_else_def Let_def)











section \<open>Results about the process supervisor\<close>

lemma fire_timeout_idle: "timer c = None \<Longrightarrow> fire_timeout t c = c"
  by (simp add: fire_timeout_def)

lemma fire_kill_timer_idle: "killTimer c = None \<Longrightarrow> fire_kill_timer t c = c"
  by (simp add: fire_kill_timer_def)

lemma timers_on_kill_timer:
  "timer (on_kill_timer now c) = timer c" "killTimer (on_kill_timer now c) = killTimer c"
  by (simp_all add: on_kill_timer_def split: option.splits)

lemma timer_on_timeout: "timer (on_timeout now c) = timer c"
  by (simp add: on_timeout_def Let_def)

lemma timer_fire_kill_timer: "timer (fire_kill_timer t c) = timer c"
  by (simp add: fire_kill_timer_def timers_on_kill_timer split: option.splits)

lemma fire_kill_timer_twice:
  "t1 \<le> t2 \<Longrightarrow> fire_kill_timer t2 (fire_kill_timer t1 c) = fire_kill_timer t2 c"
proof (cases "killTimer c")
  case None
  then show ?thesis by (simp add: fire_kill_timer_idle)
next
  case (Some k)
  assume le: "t1 \<le> t2"
  show ?thesis
  proof (cases "k \<le> t1")
    case True
    with le have k2: "k \<le> t2" by simp
    have "killTimer (on_kill_timer k (c\<lparr>killTimer := None\<rparr>)) = None"
      by (simp add: timers_on_kill_timer)
    then show ?thesis
      using Some True k2 by (simp add: fire_kill_timer_def)
  next
    case False
    then have "fire_kill_timer t1 c = c"
      using Some by (simp add: fire_kill_timer_def)
    then show ?thesis by simp
  qed
qed

lemma advance_idle_timer: "timer c = None \<Longrightarrow> advance t c = fire_kill_timer t c"
  by (simp add: advance_def fire_timeout_idle)

lemma advance_advance:
  assumes "control_ok c" and "t1 \<le> t2"
  shows "advance t2 (advance t1 c) = advance t2 c"
proof (cases "timer c")
  case None
  then have "timer (fire_kill_timer t1 c) = None"
    by (simp add: timer_fire_kill_timer)
  then show ?thesis
    using None assms(2) by (simp add: advance_idle_timer fire_kill_timer_twice)
next
  case (Some d)
  with assms(1) have nk: "killTimer c = None"
    by (simp add: control_ok_def)
  show ?thesis
  proof (cases "d \<le> t1")
    case True
    let ?c = "on_timeout d (c\<lparr>timer := None\<rparr>)"
    have t: "timer ?c = None" by (simp add: timer_on_timeout)
    have f1: "fire_timeout t1 c = ?c" using Some True by (simp add: fire_timeout_def)
    have f2: "fire_timeout t2 c = ?c" using Some True assms(2) by (simp add: fire_timeout_def)
    have "advance t2 (advance t1 c) = advance t2 (fire_kill_timer t1 ?c)"
      by (simp add: advance_def f1)
    also have "\<dots> = fire_kill_timer t2 (fire_kill_timer t1 ?c)"
      by (simp add: advance_idle_timer timer_fire_kill_timer t)
    also have "\<dots> = fire_kill_timer t2 ?c"
      using assms(2) by (rule fire_kill_timer_twice)
    also have "\<dots> = advance t2 c"
      by (simp add: advance_def f2)
    finally show ?thesis .
  next
    case False
    then have "fire_timeout t1 c = c" using Some by (simp add: fire_timeout_def)
    then have "advance t1 c = c" by (simp add: advance_def nk fire_kill_timer_idle)
    then show ?thesis by simp
  qed
qed

lemma control_ok_fire_kill_timer: "control_ok c \<Longrightarrow> control_ok (fire_kill_timer t c)"
  by (auto simp: control_ok_def fire_kill_timer_def timers_on_kill_timer split: option.splits)

lemma control_ok_fire_timeout: "control_ok c \<Longrightarrow> control_ok (fire_timeout t c)"
  by (auto simp: control_ok_def fire_timeout_def on_timeout_def Let_def split: option.splits)

lemma control_ok_advance: "control_ok c \<Longrightarrow> control_ok (advance t c)"
  by (simp add: advance_def control_ok_fire_kill_timer control_ok_fire_timeout)

lemma control_ok_handle: "control_ok c \<Longrightarrow> control_ok (control_handle i c)"
  by (cases i) (auto simp: control_ok_def)

lemma control_ok_step: "control_ok c \<Longrightarrow> control_ok (control_step c ti)"
  by (simp add: control_step_def control_ok_advance control_ok_handle)

lemma control_resolve: "control (resolve r s) = control s"
  by (simp add: resolve_def split: option.splits)

lemma control_forward: "control (forward evs s) = control s"
proof (induction evs arbitrary: s)
  case Nil
  show ?case by simp
next
  case (Cons e es)
  show ?case
    by (cases e) (simp_all add: Cons.IH Let_def control_resolve)
qed

lemma control_on_line: "control (on_line P l s) = control s"
  by (simp add: on_line_def Let_def control_forward)

lemma control_on_close: "control (on_close now code s) = control s"
  by (simp add: on_close_def Let_def control_resolve)

lemma control_on_error: "control (on_error now msg s) = control s"
  by (simp add: on_error_def Let_def control_resolve)

lemma control_step_eq: "control (step P s ti) = control_step (control s) ti"
  by (cases "snd ti")
    (simp_all add: step_def Let_def control_on_line control_on_close control_on_error)

lemma step_malformed:
  "P l = None \<Longrightarrow> step P s (t, Line l) = s\<lparr>control := control_step (control s) (t, Line l)\<rparr>"
  by (simp add: step_def on_line_def parseStreamLine_def returned_def Let_def)

lemma step_cong_control:
  assumes "control_step cA ti = control_step cB ti"
  shows "step P (s\<lparr>control := cA\<rparr>) ti = step P (s\<lparr>control := cB\<rparr>) ti"
  using assms by (simp add: step_def Let_def)

lemma skip_malformed_general:
  assumes "sorted (map fst ins)" and "\<forall>ti \<in> set ins. t \<le> fst ti"
    and "control_ok cA" and "control_ok cB"
    and "\<forall>t' \<ge> t. advance t' cA = advance t' cB"
  shows "\<exists>c. foldl (step P) (s\<lparr>control := cA\<rparr>) ins
            = (foldl (step P) (s\<lparr>control := cB\<rparr>) (filter (well_formed P) ins))\<lparr>control := c\<rparr>"
  using assms
proof (induction ins arbitrary: s cA cB t)
  case Nil
  show ?case by (rule exI [of _ cA]) simp
next
  case (Cons ti ins)
  obtain t1 i where ti: "ti = (t1, i)" by (cases ti)
  from Cons.prems(1,2) ti have t1: "t \<le> t1" and later: "\<forall>x \<in> set ins. t1 \<le> fst x"
    and srt: "sorted (map fst ins)"
    by auto
  show ?case
  proof (cases "well_formed P ti")
    case True
    from Cons.prems(5) t1 have "control_step cA ti = control_step cB ti"
      by (simp add: control_step_def ti)
    then have same: "step P (s\<lparr>control := cA\<rparr>) ti = step P (s\<lparr>control := cB\<rparr>) ti"
      by (rule step_cong_control)
    let ?s = "step P (s\<lparr>control := cB\<rparr>) ti"
    have ok: "control_ok (control ?s)"
      by (simp add: control_step_eq control_ok_step Cons.prems(4))
    have triv: "\<forall>t' \<ge> t1. advance t' (control ?s) = advance t' (control ?s)"
      by simp
    from Cons.IH [OF srt later ok ok triv, where s = ?s]
    show ?thesis using True same by simp
  next
    case False
    then obtain l where l: "i = Line l" "P l = None"
      by (auto simp: well_formed_def ti split: input.splits)
    have stepA: "step P (s\<lparr>control := cA\<rparr>) ti = s\<lparr>control := advance t1 cA\<rparr>"
      by (simp add: ti l step_malformed control_step_def)
    have rel: "\<forall>t' \<ge> t1. advance t' (advance t1 cA) = advance t' cB"
    proof (intro allI impI)
      fix t' assume le: "t1 \<le> t'"
      have "advance t' (advance t1 cA) = advance t' cA"
        using Cons.prems(3) le by (rule advance_advance)
      also have "\<dots> = advance t' cB"
        using Cons.prems(5) t1 le by simp
      finally show "advance t' (advance t1 cA) = advance t' cB" .
    qed
    from Cons.IH [OF srt later control_ok_advance [OF Cons.prems(3)] Cons.prems(4) rel, where s = s]
    show ?thesis using False stepA by simp
  qed
qed

text \<open>
  C4. For inputs in the order of their times, the run with the lines that
  \<^verbatim>\<open>JSON.parse\<close> rejects and the run without them emit the same events, leave the same
  parser state, resolve the same result and raise the same number of exceptions: a
  malformed line produces no event, changes no parser state and does not abort the run.
\<close>

theorem malformed_lines_are_skipped:
  assumes "sorted (map fst inputs)"
  shows "emitted (runClaudeStream P T sp inputs)
           = emitted (runClaudeStream P T sp (filter (well_formed P) inputs))
       \<and> parser (runClaudeStream P T sp inputs)
           = parser (runClaudeStream P T sp (filter (well_formed P) inputs))
       \<and> resolved (runClaudeStream P T sp inputs)
           = resolved (runClaudeStream P T sp (filter (well_formed P) inputs))
       \<and> uncaught (runClaudeStream P T sp inputs)
           = uncaught (runClaudeStream P T sp (filter (well_formed P) inputs))"
proof (cases sp)
  case (SpawnThrows err now)
  then show ?thesis by (simp add: runClaudeStream_def)
next
  case (Spawned p)
  let ?s = "spawned T p"
  have ok: "control_ok (control ?s)"
    by (simp add: spawned_def initial_def control_ok_def)
  have z: "\<forall>ti \<in> set inputs. 0 \<le> fst ti" by simp
  have triv: "\<forall>t' \<ge> 0. advance t' (control ?s) = advance t' (control ?s)" by simp
  from skip_malformed_general [OF assms z ok ok triv, where s = ?s and P = P]
  obtain c where "foldl (step P) ?s inputs
      = (foldl (step P) ?s (filter (well_formed P) inputs))\<lparr>control := c\<rparr>"
    by auto
  then show ?thesis
    by (simp add: runClaudeStream_def Spawned)
qed









lemma forward_one_complete:
  "forward [Complete r] s =
     (if resultResolved s then s\<lparr>emitted := emitted s @ [Complete r]\<rparr>
      else resolve r (s\<lparr>emitted := emitted s @ [Complete r], resultResolved := True\<rparr>))"
  by (simp add: Let_def)





























lemma control_ok_steps: "control_ok c \<Longrightarrow> control_ok (foldl control_step c ins)"
  by (induction ins arbitrary: c) (simp_all add: control_ok_step)
















lemma sample_run_values:
  "emitted (runClaudeStream sample_parse 1000 (Spawned (Some 42))
      [(1, Line line_hi), (2, Line ''not json''), (3, Line line_result), (4, ProcessClose (Some 0))])
   = [TextDelta (Some (JStr ''Hi'')) ''Hi'',
      Complete \<lparr>success = True, output_text = JStr ''Hi'', timedOut = False,
                exitCode = Some 0, durationMs = JNum 0, costUsd = None, numTurns = None\<rparr>]"
  by code_simp

theorem malformed_lines_are_skipped_witness:
  "sorted (map fst [(1::nat, Line line_hi), (2, Line ''not json''), (3, Line line_result),
                    (4, ProcessClose (Some 0))])
   \<and> filter (well_formed sample_parse)
        [(1, Line line_hi), (2, Line ''not json''), (3, Line line_result), (4, ProcessClose (Some 0))]
       = [(1, Line line_hi), (3, Line line_result), (4, ProcessClose (Some 0))]
   \<and> emitted (runClaudeStream sample_parse 1000 (Spawned (Some 42))
        [(1, Line line_hi), (2, Line ''not json''), (3, Line line_result), (4, ProcessClose (Some 0))])
       = emitted (runClaudeStream sample_parse 1000 (Spawned (Some 42))
           [(1, Line line_hi), (3, Line line_result), (4, ProcessClose (Some 0))])"
proof -
  let ?ins = "[(1::nat, Line line_hi), (2, Line ''not json''), (3, Line line_result),
               (4, ProcessClose (Some 0))]"
  have s: "sorted (map fst ?ins)" by simp
  have f: "filter (well_formed sample_parse) ?ins
             = [(1, Line line_hi), (3, Line line_result), (4, ProcessClose (Some 0))]"
    by code_simp
  from malformed_lines_are_skipped [OF s, of sample_parse 1000 "Spawned (Some 42)"] s f show ?thesis
    by simp
qed




section \<open>Results about the idempotency cache\<close>

























lemmas cache_eval = admit_def isDuplicate_def expire_def due_keys_def has_def
  MAX_CACHE_SIZE_def WINDOW_MS_def Let_def

lemma first_mention:
  "admit 0 ''C1-17.5'' empty_cache
     = (True, \<lparr>processed = [(''C1-17.5'', 0)], expiry = [(300000, ''C1-17.5'')]\<rparr>)"
  by (simp add: cache_eval empty_cache_def)

lemma other_mention:
  "admit 100 ''C2-17.9'' \<lparr>processed = [(''C1-17.5'', 0)], expiry = [(300000, ''C1-17.5'')]\<rparr>
     = (True, \<lparr>processed = [(''C1-17.5'', 0), (''C2-17.9'', 100)],
               expiry = [(300000, ''C1-17.5''), (300100, ''C2-17.9'')]\<rparr>)"
  by (simp add: cache_eval)

lemma repeated_mention:
  "admit 200 ''C1-17.5'' \<lparr>processed = [(''C1-17.5'', 0), (''C2-17.9'', 100)],
               expiry = [(300000, ''C1-17.5''), (300100, ''C2-17.9'')]\<rparr>
     = (False, \<lparr>processed = [(''C1-17.5'', 0), (''C2-17.9'', 100)],
               expiry = [(300000, ''C1-17.5''), (300100, ''C2-17.9'')]\<rparr>)"
  by (simp add: cache_eval)

lemma mention_after_window:
  "admit 300000 ''C1-17.5'' \<lparr>processed = [(''C1-17.5'', 0), (''C2-17.9'', 100)],
               expiry = [(300000, ''C1-17.5''), (300100, ''C2-17.9'')]\<rparr>
     = (True, \<lparr>processed = [(''C2-17.9'', 100), (''C1-17.5'', 300000)],
               expiry = [(300100, ''C2-17.9''), (600000, ''C1-17.5'')]\<rparr>)"
  by (simp add: cache_eval)

lemma serve_example:
  "fst (serve empty_cache [(0, ''C1-17.5''), (100, ''C2-17.9''), (200, ''C1-17.5'')])
     = [True, True, False]"
  by (simp add: Let_def first_mention other_mention repeated_mention)


section \<open>Results about the update coalescer\<close>






lemma complete_stops:
  "stopped (onEvent (Complete r) u) \<and> pushes (onEvent (Complete r) u) = pushes u"
  by simp




end
